theory Spec2Isabelle
  imports Main "HOL-Library.Sublist"
begin

section \<open>Settings routes of lute (src/lute/settings/routes.py)\<close>

text \<open>
  A shallow embedding of the four routes of \<^verbatim>\<open>lute/settings/routes.py\<close> and of the form
  validator \<^verbatim>\<open>UserSettingsForm.validate_backup_dir\<close>.

  Python strings are modelled as \<open>string\<close>, holding the UTF-8 encoding of the text.
  UTF-8 is injective and the encoding of a concatenation is the concatenation of the
  encodings, so \<open>==\<close>, \<open>+\<close>, \<open>join\<close> and \<open>startswith\<close> on Python strings are the same
  operations on the byte lists.
\<close>

subsection \<open>Python values, exceptions, outcomes\<close>

text \<open>
  The values a settings row or a form field holds: \<open>None\<close>, a bool, an int or a str.
\<close>

datatype setting = NoneV | Bool bool | IntV int | Str string

text \<open>
  An exception object, as far as the routes look at it: \<open>type(e).__name__\<close> and
  \<open>str(e)\<close>. Every exception of the model is an instance of \<open>Exception\<close>, which is what
  \<open>except Exception\<close> catches.
\<close>

datatype exn = Exception (type_name: string) (str: string)

text \<open>A call either returns a value or raises; both leave a state behind.\<close>

datatype 'a outcome = Returned 'a | Raised exn

subsection \<open>The collaborators: settings store, persistence session, parser registry\<close>

text \<open>
  The calls the routes make on their collaborators, in the order they are made. The log
  holds every call, also one that raised.
\<close>

datatype event =
    SetValue string setting
  | Commit
  | Construct string
  | SwitchTagger nat string

text \<open>
  A parser instance (spec 4.3): the variant of its tagging engine, and the external-tool
  path it read from the settings when it was constructed.
\<close>

record parser =
  tagger_variant :: setting
  tool_path :: setting

text \<open>
  The state the routes run in.
  \<^item> \<open>stored\<close>: the rows of the settings table as the session sees them;
    \<open>defaults\<close>: the registered default of each key (spec 4.1);
  \<^item> \<open>durable\<close>: the rows as of the last successful flush;
  \<^item> \<open>calls\<close>: the log of collaborator calls;
  \<^item> \<open>refuses\<close>: which calls the collaborators answer by raising, and with which
    exception; \<open>torn\<close>: of the writes that raise, which had changed the row before
    they raised. Both belong to the environment: no operation changes them;
  \<^item> \<open>objects\<close>: the parser instances ever constructed; an instance is identified by
    its index, and a new one is appended;
  \<^item> \<open>parser_instances\<close>: the registry, from parser name to instance; \<open>None\<close> is
    "no instance for this name".
\<close>

record world =
  stored :: "string \<rightharpoonup> setting"
  defaults :: "string \<Rightarrow> setting"
  durable :: "string \<rightharpoonup> setting"
  calls :: "event list"
  refuses :: "event \<Rightarrow> exn option"
  torn :: "event \<Rightarrow> bool"
  objects :: "parser list"
  parser_instances :: "string \<rightharpoonup> nat"

text \<open>
  Modelled from the spec: \<^verbatim>\<open>UserSetting.get_value\<close> (lute/models/setting.py is not
  under src/). Spec 4.1: "returns the stored value for key, or a registered default if
  unset"; the routes never ask for the strict mode, so it does not raise.
\<close>

definition get_value :: "string \<Rightarrow> world \<Rightarrow> setting" where
  "get_value keyname s =
     (case stored s keyname of Some v \<Rightarrow> v | None \<Rightarrow> defaults s keyname)"

text \<open>
  Modelled from the spec: \<^verbatim>\<open>UserSetting.set_value\<close>. Spec 4.1: "persists value under
  key, overwriting any prior value", visible to the next \<open>get\<close>, not yet durable. The
  routes wrap this call in \<open>try\<close> and write the old value back in the handler, so it can
  raise, and a write that raised may have changed the row: it raises when the
  environment refuses the call, and the row then holds the new value when the refused
  write is a torn one, and is as before otherwise.
\<close>

definition set_value :: "string \<Rightarrow> setting \<Rightarrow> world \<Rightarrow> unit outcome \<times> world" where
  "set_value keyname keyvalue s =
     (let s' = s\<lparr>calls := calls s @ [SetValue keyname keyvalue]\<rparr>;
          s'' = s'\<lparr>stored := (stored s)(keyname \<mapsto> keyvalue)\<rparr>
      in case refuses s (SetValue keyname keyvalue) of
           Some e \<Rightarrow> (Raised e, if torn s (SetValue keyname keyvalue) then s'' else s')
         | None \<Rightarrow> (Returned (), s''))"

text \<open>
  Modelled from the spec: \<^verbatim>\<open>db.session.commit\<close>, the \<open>flush()\<close> of spec 6: the staged
  rows become durable in one unit. Spec 4.4: if the flush fails, nothing is durable and
  the in-memory state stays as it is.
\<close>

definition commit :: "world \<Rightarrow> unit outcome \<times> world" where
  "commit s =
     (let s' = s\<lparr>calls := calls s @ [Commit]\<rparr> in
      case refuses s Commit of
        Some e \<Rightarrow> (Raised e, s')
      | None \<Rightarrow> (Returned (), s'\<lparr>durable := stored s\<rparr>))"

text \<open>
  Modelled from the spec: \<^verbatim>\<open>lute.parse.registry.get_parser\<close> (not under src/).
  Spec 4.2: returns the instance of the name, constructing it on the first request from
  the current settings; if the construction fails, no entry is cached.
\<close>

definition get_parser :: "string \<Rightarrow> world \<Rightarrow> nat outcome \<times> world" where
  "get_parser name s =
     (case parser_instances s name of
        Some i \<Rightarrow> (Returned i, s)
      | None \<Rightarrow>
          (let s' = s\<lparr>calls := calls s @ [Construct name]\<rparr> in
           case refuses s (Construct name) of
             Some e \<Rightarrow> (Raised e, s')
           | None \<Rightarrow>
               (let i = length (objects s);
                    p = \<lparr>tagger_variant = get_value ''unidic_types'' s,
                         tool_path = get_value ''mecab_path'' s\<rparr>
                in (Returned i,
                    s'\<lparr>objects := objects s @ [p],
                       parser_instances := (parser_instances s)(name \<mapsto> i)\<rparr>))))"

text \<open>
  Modelled from the spec: the instance method \<^verbatim>\<open>switch_tagger\<close> (lute/parse is not under
  src/). Spec 4.3: rebuilds only the tagging engine of the instance, to the requested
  variant; when it fails, the instance stays as it was.
\<close>

definition switch_tagger :: "nat \<Rightarrow> string \<Rightarrow> world \<Rightarrow> unit outcome \<times> world" where
  "switch_tagger i variant s =
     (let s' = s\<lparr>calls := calls s @ [SwitchTagger i variant]\<rparr> in
      case refuses s (SwitchTagger i variant) of
        Some e \<Rightarrow> (Raised e, s')
      | None \<Rightarrow>
          (Returned (),
           s'\<lparr>objects := (objects s)[i := (objects s ! i)\<lparr>tagger_variant := Str variant\<rparr>]\<rparr>))"

subsection \<open>Strings\<close>

text \<open>Python's \<open>sep.join(xs)\<close>.\<close>

fun join :: "string \<Rightarrow> string list \<Rightarrow> string" where
  "join sep [] = []"
| "join sep [x] = x"
| "join sep (x # y # ys) = x @ sep @ join sep (y # ys)"

text \<open>The pilcrow U+00B6 and the text the test parse runs on, in UTF-8.\<close>

definition pilcrow :: string where
  "pilcrow = [CHR 0xC2, CHR 0xB6]"

definition src :: string where
  "src = [CHR 0xE7, CHR 0xA7, CHR 0x81, CHR 0xE3, CHR 0x81, CHR 0xAF,
          CHR 0xE5, CHR 0x85, CHR 0x83, CHR 0xE6, CHR 0xB0, CHR 0x97,
          CHR 0xE3, CHR 0x81, CHR 0xA7, CHR 0xE3, CHR 0x81, CHR 0x99]"

subsection \<open>test_parse (lines 118-146) and set_key_value (lines 149-161)\<close>

text \<open>A parsed token; the route reads its \<open>token\<close> attribute only.\<close>

record ParsedToken =
  token :: string

text \<open>The dict the two routes hand to \<open>jsonify\<close>.\<close>

record response =
  result :: string
  message :: string

text \<open>
  Lines 133-136, \<open>Language()\<close>, \<open>JapaneseParser()\<close> and \<open>p.get_parsed_tokens(src, lang)\<close>,
  are the probe: a parameter of the route. It is given the text and the settings as
  \<open>get_value\<close> shows them at that moment, and returns the tokens or raises; it writes
  no setting.
\<close>

type_synonym probe = "string \<Rightarrow> (string \<Rightarrow> setting) \<Rightarrow> exn + ParsedToken list"

text \<open>Line 137: \<open>[tok.token for tok in toks if tok.token != pilcrow]\<close>.\<close>

definition reported :: "'a ParsedToken_scheme list \<Rightarrow> string list" where
  "reported toks = map token (filter (\<lambda>tok. token tok \<noteq> pilcrow) toks)"

text \<open>Lines 141 and 157: \<open>f"{type(e).__name__}: {str(e)}"\<close>.\<close>

definition failure_message :: "exn \<Rightarrow> string" where
  "failure_message e = type_name e @ '': '' @ str e"

text \<open>
  \<open>test_parse\<close>. The \<open>try\<close> covers the tentative write and the probe; \<open>except Exception\<close>
  turns whatever they raise into the failure result; the \<open>finally\<close> clause writes the old
  value back on every path, outside any handler: when that write raises, the route
  raises.
\<close>

definition test_parse :: "setting \<Rightarrow> probe \<Rightarrow> world \<Rightarrow> response outcome \<times> world" where
  "test_parse mecab_path get_parsed_tokens s =
     (let old_setting = get_value ''mecab_path'' s;
          (res, s1) =
            (case set_value ''mecab_path'' mecab_path s of
               (Raised e, s') \<Rightarrow>
                 (\<lparr>result = ''failure'', message = failure_message e\<rparr>, s')
             | (Returned _, s') \<Rightarrow>
                 (case get_parsed_tokens src (\<lambda>k. get_value k s') of
                    Inl e \<Rightarrow> (\<lparr>result = ''failure'', message = failure_message e\<rparr>, s')
                  | Inr toks \<Rightarrow>
                      (\<lparr>result = ''success'',
                        message = src @ '' parsed to ['' @ join '', '' (reported toks) @ '']''\<rparr>,
                       s')))
      in case set_value ''mecab_path'' old_setting s1 of
           (Raised e, s2) \<Rightarrow> (Raised e, s2)
         | (Returned _, s2) \<Rightarrow> (Returned res, s2))"

text \<open>
  \<open>set_key_value\<close>. The value (\<open>val\<close> here) comes from the URL, so it is a str. The
  handler writes the
  old value back with no handler of its own; the commit on line 160 follows the
  \<open>try\<close> statement, on both branches.
\<close>

definition set_key_value :: "string \<Rightarrow> string \<Rightarrow> world \<Rightarrow> response outcome \<times> world" where
  "set_key_value key val s =
     (let old_value = get_value key s in
      case (case set_value key (Str val) s of
              (Returned _, s1) \<Rightarrow> (Returned \<lparr>result = ''success'', message = ''OK''\<rparr>, s1)
            | (Raised e, s1) \<Rightarrow>
                (case set_value key old_value s1 of
                   (Raised e', s2) \<Rightarrow> (Raised e', s2)
                 | (Returned _, s2) \<Rightarrow>
                     (Returned \<lparr>result = ''failure'', message = failure_message e\<rparr>, s2))) of
        (Raised e, s3) \<Rightarrow> (Raised e, s3)
      | (Returned res, s3) \<Rightarrow>
          (case commit s3 of
             (Raised e, s4) \<Rightarrow> (Raised e, s4)
           | (Returned _, s4) \<Rightarrow> (Returned res, s4)))"

subsection \<open>set_parser (lines 164-171)\<close>

text \<open>
  \<open>set_parser\<close>. The guard on line 166 compares the requested variant with the stored
  setting \<open>unidic_types\<close>. Past it, the route constructs the instance when the registry
  holds none for \<open>japanese\<close>, and calls \<open>switch_tagger\<close> on what the registry then holds;
  calling a method on \<open>None\<close> would raise AttributeError. The route writes no setting.
\<close>

definition set_parser :: "string \<Rightarrow> world \<Rightarrow> string outcome \<times> world" where
  "set_parser unidic_type s =
     (if Str unidic_type = get_value ''unidic_types'' s then (Returned unidic_type, s)
      else
        case (case parser_instances s ''japanese'' of
                None \<Rightarrow>
                  (case get_parser ''japanese'' s of
                     (Raised e, s1) \<Rightarrow> (Raised e, s1)
                   | (Returned _, s1) \<Rightarrow> (Returned (), s1))
              | Some _ \<Rightarrow> (Returned (), s)) of
          (Raised e, s1) \<Rightarrow> (Raised e, s1)
        | (Returned _, s1) \<Rightarrow>
            (case parser_instances s1 ''japanese'' of
               None \<Rightarrow>
                 (Raised (Exception ''AttributeError''
                    (CHR 0x27 # ''NoneType'' @ CHR 0x27 # '' object has no attribute '' @
                     CHR 0x27 # ''switch_tagger'' @ [CHR 0x27])), s1)
             | Some p \<Rightarrow>
                 (case switch_tagger p unidic_type s1 of
                    (Raised e, s2) \<Rightarrow> (Raised e, s2)
                  | (Returned _, s2) \<Rightarrow> (Returned unidic_type, s2))))"

subsection \<open>edit_settings (lines 85-115)\<close>

text \<open>
  A form field: its id, its data, and whether it is a \<open>BooleanField\<close>. A form is the list
  of its fields in iteration order.
\<close>

record field =
  field_id :: string
  field_data :: setting
  is_boolean :: bool

text \<open>What the route answers: a redirect with the flashed messages, or the rendered form.\<close>

datatype reply =
    Redirect string "(string \<times> string) list"
  | RenderTemplate string "field list"

text \<open>Lines 99-101: the loop that writes the fields; a write that raises ends it.\<close>

fun set_fields :: "field list \<Rightarrow> world \<Rightarrow> unit outcome \<times> world" where
  "set_fields [] s = (Returned (), s)"
| "set_fields (f # form) s =
     (if field_id f \<notin> {''csrf_token'', ''submit''} then
        (case set_value (field_id f) (field_data f) s of
           (Raised e, s') \<Rightarrow> (Raised e, s')
         | (Returned _, s') \<Rightarrow> set_fields form s')
      else set_fields form s)"

text \<open>
  Line 113, \<open>int(field.data or 0)\<close>. Python's \<open>int\<close> on a non-empty str is a parameter,
  \<open>py_int\<close>: it returns the number or raises ValueError.
\<close>

definition int_or_0 :: "(string \<Rightarrow> exn + int) \<Rightarrow> setting \<Rightarrow> exn + setting" where
  "int_or_0 py_int d =
     (case d of
        NoneV \<Rightarrow> Inr (IntV 0)
      | Bool b \<Rightarrow> Inr (IntV (if b then 1 else 0))
      | IntV n \<Rightarrow> Inr (IntV n)
      | Str t \<Rightarrow>
          (if t = [] then Inr (IntV 0)
           else case py_int t of Inl e \<Rightarrow> Inl e | Inr n \<Rightarrow> Inr (IntV n)))"

text \<open>Lines 108-113: the loop that loads the current settings into the fields.\<close>

fun load_fields :: "(string \<Rightarrow> exn + int) \<Rightarrow> world \<Rightarrow> field list \<Rightarrow> exn + field list" where
  "load_fields py_int s [] = Inr []"
| "load_fields py_int s (f # form) =
     (let d = (if field_id f \<noteq> ''csrf_token'' then get_value (field_id f) s
               else field_data f)
      in case (if is_boolean f then int_or_0 py_int d else Inr d) of
           Inl e \<Rightarrow> Inl e
         | Inr d' \<Rightarrow>
             (case load_fields py_int s form of
                Inl e \<Rightarrow> Inl e
              | Inr form' \<Rightarrow> Inr (f\<lparr>field_data := d'\<rparr> # form')))"

text \<open>
  \<open>edit_settings\<close>. What \<open>form.validate_on_submit()\<close> answered is a parameter. Lines 90-95
  only set rendering attributes of one field and are left out.
\<close>

definition edit_settings ::
    "(string \<Rightarrow> exn + int) \<Rightarrow> field list \<Rightarrow> bool \<Rightarrow> world \<Rightarrow> reply outcome \<times> world" where
  "edit_settings py_int form validate_on_submit s =
     (if validate_on_submit then
        (case set_fields form s of
           (Raised e, s1) \<Rightarrow> (Raised e, s1)
         | (Returned _, s1) \<Rightarrow>
             (case commit s1 of
                (Raised e, s2) \<Rightarrow> (Raised e, s2)
              | (Returned _, s2) \<Rightarrow>
                  (Returned (Redirect ''/'' [(''Settings updated'', ''success'')]), s2)))
      else
        (case load_fields py_int s form of
           Inl e \<Rightarrow> (Raised e, s)
         | Inr form' \<Rightarrow> (Returned (RenderTemplate ''settings/form.html'' form'), s)))"

subsection \<open>validate_backup_dir (lines 64-79)\<close>

text \<open>
  The characters \<open>str.strip\<close> removes, those for which \<open>str.isspace\<close> holds, each in its
  UTF-8 encoding: U+0009-000D, U+001C-0020, U+0085, U+00A0, U+1680, U+2000-200A, U+2028,
  U+2029, U+202F, U+205F, U+3000.
\<close>

definition whitespace :: "string list" where
  "whitespace =
     [[CHR 0x09], [CHR 0x0A], [CHR 0x0B], [CHR 0x0C], [CHR 0x0D],
      [CHR 0x1C], [CHR 0x1D], [CHR 0x1E], [CHR 0x1F], [CHR 0x20],
      [CHR 0xC2, CHR 0x85], [CHR 0xC2, CHR 0xA0],
      [CHR 0xE1, CHR 0x9A, CHR 0x80],
      [CHR 0xE2, CHR 0x80, CHR 0x80], [CHR 0xE2, CHR 0x80, CHR 0x81],
      [CHR 0xE2, CHR 0x80, CHR 0x82], [CHR 0xE2, CHR 0x80, CHR 0x83],
      [CHR 0xE2, CHR 0x80, CHR 0x84], [CHR 0xE2, CHR 0x80, CHR 0x85],
      [CHR 0xE2, CHR 0x80, CHR 0x86], [CHR 0xE2, CHR 0x80, CHR 0x87],
      [CHR 0xE2, CHR 0x80, CHR 0x88], [CHR 0xE2, CHR 0x80, CHR 0x89],
      [CHR 0xE2, CHR 0x80, CHR 0x8A], [CHR 0xE2, CHR 0x80, CHR 0xA8],
      [CHR 0xE2, CHR 0x80, CHR 0xA9], [CHR 0xE2, CHR 0x80, CHR 0xAF],
      [CHR 0xE2, CHR 0x81, CHR 0x9F], [CHR 0xE3, CHR 0x80, CHR 0x80]]"

text \<open>
  Dropping the leading characters that are in a table of encodings of one, two or three
  bytes. In valid UTF-8 an encoding that is a prefix of the text is its first character.
\<close>

fun strip_left :: "string list \<Rightarrow> string \<Rightarrow> string" where
  "strip_left tab [] = []"
| "strip_left tab [a] = (if [a] \<in> set tab then [] else [a])"
| "strip_left tab [a, b] =
     (if [a] \<in> set tab then strip_left tab [b]
      else if [a, b] \<in> set tab then [] else [a, b])"
| "strip_left tab (a # b # c # s) =
     (if [a] \<in> set tab then strip_left tab (b # c # s)
      else if [a, b] \<in> set tab then strip_left tab (c # s)
      else if [a, b, c] \<in> set tab then strip_left tab s
      else a # b # c # s)"

definition lstrip :: "string \<Rightarrow> string" where
  "lstrip s = strip_left whitespace s"

definition rstrip :: "string \<Rightarrow> string" where
  "rstrip s = rev (strip_left (map rev whitespace) (rev s))"

definition strip :: "string \<Rightarrow> string" where
  "strip s = rstrip (lstrip s)"

text \<open>
  \<open>os.path\<close> on a POSIX system (\<open>posixpath\<close>). The file system is a parameter: the
  current directory \<open>os.getcwd()\<close>, and what \<open>os.path.exists\<close> and \<open>os.path.isdir\<close>
  answer.
\<close>

record filesystem =
  cwd :: string
  exists :: "string \<Rightarrow> bool"
  isdir :: "string \<Rightarrow> bool"

text \<open>\<open>path.split(sep)\<close> for a separator of one character.\<close>

fun str_split :: "char \<Rightarrow> string \<Rightarrow> string list" where
  "str_split sep [] = [[]]"
| "str_split sep (c # s) =
     (if c = sep then [] # str_split sep s
      else case str_split sep s of [] \<Rightarrow> [[c]] | w # ws \<Rightarrow> (c # w) # ws)"

definition isabs :: "string \<Rightarrow> bool" where
  "isabs p = prefix ''/'' p"

text \<open>\<open>posixpath.join(a, b)\<close>.\<close>

definition path_join :: "string \<Rightarrow> string \<Rightarrow> string" where
  "path_join a b =
     (if prefix ''/'' b then b
      else if a = [] \<or> last a = CHR ''/'' then a @ b
      else a @ ''/'' @ b)"

text \<open>The loop of \<open>posixpath.normpath\<close> over the components, \<open>new_comps\<close> as accumulator.\<close>

fun norm_comps :: "nat \<Rightarrow> string list \<Rightarrow> string list \<Rightarrow> string list" where
  "norm_comps initial_slashes new_comps [] = new_comps"
| "norm_comps initial_slashes new_comps (cmp # comps) =
     (if cmp = [] \<or> cmp = ''.'' then norm_comps initial_slashes new_comps comps
      else if cmp \<noteq> ''..'' \<or> (initial_slashes = 0 \<and> new_comps = []) \<or>
              (new_comps \<noteq> [] \<and> last new_comps = ''..'')
        then norm_comps initial_slashes (new_comps @ [cmp]) comps
      else if new_comps \<noteq> [] then norm_comps initial_slashes (butlast new_comps) comps
      else norm_comps initial_slashes new_comps comps)"

definition normpath :: "string \<Rightarrow> string" where
  "normpath path =
     (if path = [] then ''.''
      else
        let initial_slashes =
              (if prefix ''/'' path
               then (if prefix ''//'' path \<and> \<not> prefix ''///'' path then 2 else 1)
               else (0 :: nat));
            comps = norm_comps initial_slashes [] (str_split CHR ''/'' path);
            joined = join ''/'' comps;
            path' = (if initial_slashes \<noteq> 0
                     then replicate initial_slashes CHR ''/'' @ joined else joined)
        in if path' = [] then ''.'' else path')"

definition abspath :: "filesystem \<Rightarrow> string \<Rightarrow> string" where
  "abspath fs path =
     normpath (if \<not> isabs path then path_join (cwd fs) path else path)"

text \<open>A text between double quotes.\<close>

definition quoted :: "string \<Rightarrow> string" where
  "quoted v = CHR 0x22 # v @ [CHR 0x22]"

text \<open>
  \<open>validate_backup_dir\<close>: \<open>backup_enabled\<close> is the data of the BooleanField, a bool;
  \<open>v\<close> is the data of the StringField, a str or \<open>None\<close>. The validator returns or raises
  ValidationError.
\<close>

definition validate_backup_dir :: "filesystem \<Rightarrow> bool \<Rightarrow> string option \<Rightarrow> exn + unit" where
  "validate_backup_dir fs backup_enabled data =
     (if backup_enabled = False then Inr ()
      else
        case (if strip (case data of None \<Rightarrow> '''' | Some t \<Rightarrow> t) = ''''
              then None else data) of
          None \<Rightarrow> Inl (Exception ''ValidationError'' ''Backup directory required'')
        | Some v \<Rightarrow>
            (let abspath = abspath fs v in
             if v \<noteq> abspath then
               Inl (Exception ''ValidationError''
                      (''Backup dir must be absolute path.  Did you mean '' @ quoted abspath @ ''?''))
             else if \<not> exists fs v then
               Inl (Exception ''ValidationError'' (''Directory '' @ quoted v @ '' does not exist.''))
             else if \<not> isdir fs v then
               Inl (Exception ''ValidationError'' (quoted v @ '' is not a directory.''))
             else Inr ()))"

subsection \<open>Concrete states, for the instances below\<close>

text \<open>
  A state with two stored settings, no parser instance, and collaborators that refuse
  nothing.
\<close>

definition lute_world :: world where
  "lute_world =
     \<lparr>stored = [''mecab_path'' \<mapsto> Str ''/usr/lib/mecab'', ''unidic_types'' \<mapsto> Str ''spoken''],
      defaults = (\<lambda>k. NoneV),
      durable = [''mecab_path'' \<mapsto> Str ''/usr/lib/mecab'', ''unidic_types'' \<mapsto> Str ''spoken''],
      calls = [],
      refuses = (\<lambda>ev. None),
      torn = (\<lambda>ev. False),
      objects = [],
      parser_instances = Map.empty\<rparr>"

text \<open>
  A probe that parses when the settings name the path where the tool is, and raises
  otherwise.
\<close>

definition mecab_probe :: probe where
  "mecab_probe text settings =
     (if settings ''mecab_path'' = Str ''/usr/lib/mecab''
      then Inr [\<lparr>token = ''a''\<rparr>, \<lparr>token = pilcrow\<rparr>, \<lparr>token = ''b''\<rparr>]
      else Inl (Exception ''ParserInitError'' ''no mecab''))"


text \<open>
  A session that fails on one write: \<open>backup_count\<close> holds 5, and the write of 7 there
  raises after it has changed the row.
\<close>

definition faulty_world :: world where
  "faulty_world =
     lute_world\<lparr>stored := (stored lute_world)(''backup_count'' \<mapsto> Str ''5''),
       refuses :=
         (\<lambda>ev. if ev = SetValue ''backup_count'' (Str ''7'')
               then Some (Exception ''OperationalError'' ''database is locked'') else None),
       torn := (\<lambda>ev. ev = SetValue ''backup_count'' (Str ''7''))\<rparr>"

text \<open>The same state with a parser instance for \<open>japanese\<close>, at the variant \<open>spoken\<close>.\<close>

definition spoken_world :: world where
  "spoken_world =
     lute_world\<lparr>objects := [\<lparr>tagger_variant = Str ''spoken'', tool_path = Str ''/usr/lib/mecab''\<rparr>],
                parser_instances := [''japanese'' \<mapsto> 0]\<rparr>"

text \<open>A submitted form: three settings and the csrf token.\<close>

definition settings_form :: "field list" where
  "settings_form =
     [\<lparr>field_id = ''backup_enabled'', field_data = Bool True, is_boolean = True\<rparr>,
      \<lparr>field_id = ''backup_dir'', field_data = Str ''/existing/abs/dir'', is_boolean = False\<rparr>,
      \<lparr>field_id = ''backup_count'', field_data = IntV 5, is_boolean = False\<rparr>,
      \<lparr>field_id = ''csrf_token'', field_data = Str ''token'', is_boolean = False\<rparr>]"

text \<open>
  A file system: the current directory is \<open>/home/lute\<close>; it holds the directory
  \<open>backups\<close> and the file \<open>notes.txt\<close>.
\<close>

definition home_fs :: filesystem where
  "home_fs =
     \<lparr>cwd = ''/home/lute'',
      exists = (\<lambda>p. p \<in> {''/home/lute'', ''/home/lute/backups'', ''/home/lute/notes.txt''}),
      isdir = (\<lambda>p. p \<in> {''/home/lute'', ''/home/lute/backups''})\<rparr>"

subsection \<open>Notions the properties are stated with\<close>

text \<open>The fields the loop of lines 99-101 writes, and the row one write puts.\<close>

definition written :: "field list \<Rightarrow> field list" where
  "written form = filter (\<lambda>f. field_id f \<notin> {''csrf_token'', ''submit''}) form"

definition put :: "field \<Rightarrow> (string \<rightharpoonup> setting) \<Rightarrow> (string \<rightharpoonup> setting)" where
  "put f m = m(field_id f \<mapsto> field_data f)"

section \<open>Properties\<close>

subsection \<open>The collaborators, call by call\<close>

lemma set_value_refused:
  "refuses s (SetValue k v) = Some e \<Longrightarrow>
   set_value k v s =
     (Raised e,
      s\<lparr>calls := calls s @ [SetValue k v],
        stored := (if torn s (SetValue k v) then (stored s)(k \<mapsto> v) else stored s)\<rparr>)"
  by (simp add: set_value_def Let_def)

lemma set_value_accepted:
  "refuses s (SetValue k v) = None \<Longrightarrow>
   set_value k v s =
     (Returned (), s\<lparr>calls := calls s @ [SetValue k v], stored := (stored s)(k \<mapsto> v)\<rparr>)"
  by (simp add: set_value_def)

lemma commit_refused:
  "refuses s Commit = Some e \<Longrightarrow> commit s = (Raised e, s\<lparr>calls := calls s @ [Commit]\<rparr>)"
  by (simp add: commit_def)

lemma commit_accepted:
  "refuses s Commit = None \<Longrightarrow>
   commit s = (Returned (), s\<lparr>calls := calls s @ [Commit], durable := stored s\<rparr>)"
  by (simp add: commit_def)

subsection \<open>test_parse\<close>

text \<open>
  C1. Whenever the test operation returns its result, every key shows the value it showed
  before the operation: for every key, every candidate value (a str or \<open>None\<close>) and every
  probe, whether the probe returned tokens or raised, and whether the tentative write was
  accepted or refused.
\<close>

theorem test_parse_restores:
  assumes "test_parse mecab_path get_parsed_tokens s = (Returned r, s')"
  shows "get_value k s' = get_value k s"
  using assms
  by (auto simp: test_parse_def set_value_def get_value_def Let_def
           split: option.splits sum.splits prod.splits outcome.splits if_splits)

text \<open>
  The instance: the candidate \<open>/bad/path\<close> makes the probe raise; the route returns the
  failure result and \<open>mecab_path\<close> shows its old value.
\<close>

theorem test_parse_restores_witness:
  "fst (test_parse (Str ''/bad/path'') mecab_probe lute_world) =
     Returned \<lparr>result = ''failure'', message = ''ParserInitError: no mecab''\<rparr> \<and>
   get_value ''mecab_path'' (snd (test_parse (Str ''/bad/path'') mecab_probe lute_world)) =
     Str ''/usr/lib/mecab''"
proof -
  have res: "fst (test_parse (Str ''/bad/path'') mecab_probe lute_world) =
      Returned \<lparr>result = ''failure'', message = ''ParserInitError: no mecab''\<rparr>"
    by (simp add: test_parse_def set_value_def get_value_def lute_world_def mecab_probe_def
          failure_message_def Let_def)
  then have run: "test_parse (Str ''/bad/path'') mecab_probe lute_world =
      (Returned \<lparr>result = ''failure'', message = ''ParserInitError: no mecab''\<rparr>,
       snd (test_parse (Str ''/bad/path'') mecab_probe lute_world))"
    by (metis prod.collapse)
  have old: "get_value ''mecab_path'' lute_world = Str ''/usr/lib/mecab''"
    by (simp add: get_value_def lute_world_def)
  from test_parse_restores [OF run, of "''mecab_path''"] old
  have "get_value ''mecab_path'' (snd (test_parse (Str ''/bad/path'') mecab_probe lute_world)) =
      Str ''/usr/lib/mecab''"
    by (rule trans)
  with res show ?thesis by (rule conjI)
qed

subsection \<open>What test_parse returns\<close>

lemma get_value_after_set:
  "(\<lambda>k. get_value k (s\<lparr>calls := cs, stored := (stored s)(key \<mapsto> v)\<rparr>)) =
   (\<lambda>k. get_value k s)(key := v)"
  by (auto simp: get_value_def fun_eq_iff split: option.splits)

lemma test_parse_returned:
  assumes "test_parse mecab_path get_parsed_tokens s = (Returned r, s')"
  shows "r =
     (case refuses s (SetValue ''mecab_path'' mecab_path) of
        Some e \<Rightarrow> \<lparr>result = ''failure'', message = failure_message e\<rparr>
      | None \<Rightarrow>
          (case get_parsed_tokens src ((\<lambda>k. get_value k s)(''mecab_path'' := mecab_path)) of
             Inl e \<Rightarrow> \<lparr>result = ''failure'', message = failure_message e\<rparr>
           | Inr toks \<Rightarrow>
               \<lparr>result = ''success'',
                message = src @ '' parsed to ['' @ join '', '' (reported toks) @ '']''\<rparr>))"
proof (cases "refuses s (SetValue ''mecab_path'' mecab_path)")
  case None
  with assms show ?thesis
    by (auto simp: test_parse_def set_value_accepted get_value_after_set Let_def
          split: sum.splits prod.splits outcome.splits)
next
  case (Some e)
  with assms show ?thesis
    by (auto simp: test_parse_def set_value_refused Let_def
          split: prod.splits outcome.splits)
qed

lemma reported_filter: "reported toks = filter (\<lambda>x. x \<noteq> pilcrow) (map token toks)"
  by (simp add: reported_def filter_map comp_def)

lemma lute_world_mecab_run:
  "\<exists>r. fst (test_parse (Str ''/usr/lib/mecab'') mecab_probe lute_world) = Returned r"
  by (simp add: test_parse_def set_value_def get_value_def lute_world_def mecab_probe_def Let_def)

text \<open>
  C9. The result the test operation returns is a success or a failure with a message. When
  the probe returned tokens, the message is the text, \<open>parsed to\<close>, and the reported
  tokens joined by commas in square brackets; when the probe raised, it is the exception's
  type name, a colon, and its description. The probe ran on the settings with the
  candidate value in place. (When the tentative write itself raised, the probe did not
  run, and the message carries that exception.)
\<close>
theorem test_parse_result:
  assumes "test_parse mecab_path get_parsed_tokens s = (Returned r, s')"
  shows "(result r = ''success'' \<or> result r = ''failure'') \<and>
     (\<forall>toks. refuses s (SetValue ''mecab_path'' mecab_path) = None \<and>
        get_parsed_tokens src ((\<lambda>k. get_value k s)(''mecab_path'' := mecab_path)) = Inr toks \<longrightarrow>
        r = \<lparr>result = ''success'',
             message = src @ '' parsed to ['' @ join '', '' (reported toks) @ '']''\<rparr>) \<and>
     (\<forall>e. refuses s (SetValue ''mecab_path'' mecab_path) = None \<and>
        get_parsed_tokens src ((\<lambda>k. get_value k s)(''mecab_path'' := mecab_path)) = Inl e \<longrightarrow>
        r = \<lparr>result = ''failure'', message = type_name e @ '': '' @ str e\<rparr>) \<and>
     (\<forall>e. refuses s (SetValue ''mecab_path'' mecab_path) = Some e \<longrightarrow>
        r = \<lparr>result = ''failure'', message = type_name e @ '': '' @ str e\<rparr>)"
  using test_parse_returned [OF assms]
  by (auto simp: failure_message_def split: option.splits sum.splits)

text \<open>The instance: the tool is at the candidate path, the probe returns three tokens.\<close>

theorem test_parse_result_witness:
  "fst (test_parse (Str ''/usr/lib/mecab'') mecab_probe lute_world) =
     Returned \<lparr>result = ''success'', message = src @ '' parsed to [a, b]''\<rparr>"
proof -
  from lute_world_mecab_run obtain r
    where "fst (test_parse (Str ''/usr/lib/mecab'') mecab_probe lute_world) = Returned r" ..
  then have run: "test_parse (Str ''/usr/lib/mecab'') mecab_probe lute_world =
      (Returned r, snd (test_parse (Str ''/usr/lib/mecab'') mecab_probe lute_world))"
    by (metis prod.collapse)
  have acc: "refuses lute_world (SetValue ''mecab_path'' (Str ''/usr/lib/mecab'')) = None"
    by (simp add: lute_world_def)
  have probe: "mecab_probe src ((\<lambda>k. get_value k lute_world)(''mecab_path'' := Str ''/usr/lib/mecab''))
      = Inr [\<lparr>token = ''a''\<rparr>, \<lparr>token = pilcrow\<rparr>, \<lparr>token = ''b''\<rparr>]"
    by (simp add: mecab_probe_def)
  from test_parse_result [OF run] acc probe
  have "r = \<lparr>result = ''success'',
      message = src @ '' parsed to ['' @
        join '', '' (reported [\<lparr>token = ''a''\<rparr>, \<lparr>token = pilcrow\<rparr>, \<lparr>token = ''b''\<rparr>]) @ '']''\<rparr>"
    by blast
  then have "r = \<lparr>result = ''success'', message = src @ '' parsed to [a, b]''\<rparr>"
    by (simp add: reported_def pilcrow_def)
  with run show ?thesis by (metis fst_conv)
qed

text \<open>
  C10. On the success path the message lists the reported tokens, and these are the
  surface texts of the produced tokens with every pilcrow removed: no reported token is
  the pilcrow, the reported tokens are a subsequence of the produced ones (so they keep
  the production order), and every other surface text occurs as often as it was
  produced.
\<close>
theorem test_parse_reported_tokens:
  assumes "test_parse mecab_path get_parsed_tokens s = (Returned r, s')"
    and "refuses s (SetValue ''mecab_path'' mecab_path) = None"
    and "get_parsed_tokens src ((\<lambda>k. get_value k s)(''mecab_path'' := mecab_path)) = Inr toks"
  shows "message r = src @ '' parsed to ['' @ join '', '' (reported toks) @ '']'' \<and>
     reported toks = filter (\<lambda>x. x \<noteq> pilcrow) (map token toks) \<and>
     pilcrow \<notin> set (reported toks) \<and>
     subseq (reported toks) (map token toks) \<and>
     (\<forall>x. x \<noteq> pilcrow \<longrightarrow> count_list (reported toks) x = count_list (map token toks) x)"
proof -
  have msg: "message r = src @ '' parsed to ['' @ join '', '' (reported toks) @ '']''"
    using test_parse_returned [OF assms(1)] assms(2,3) by simp
  have cnt: "count_list (filter (\<lambda>x. x \<noteq> pilcrow) xs) x = count_list xs x"
    if "x \<noteq> pilcrow" for x and xs :: "string list"
    using that by (induction xs) auto
  show ?thesis
    using msg cnt by (simp add: reported_filter)
qed

text \<open>The instance: of the tokens a, pilcrow, b the message lists a and b.\<close>

theorem test_parse_reported_tokens_witness:
  "message (case fst (test_parse (Str ''/usr/lib/mecab'') mecab_probe lute_world) of
              Returned r \<Rightarrow> r) = src @ '' parsed to [a, b]'' \<and>
   reported [\<lparr>token = ''a''\<rparr>, \<lparr>token = pilcrow\<rparr>, \<lparr>token = ''b''\<rparr>] = [''a'', ''b'']"
proof -
  from lute_world_mecab_run obtain r
    where r: "fst (test_parse (Str ''/usr/lib/mecab'') mecab_probe lute_world) = Returned r" ..
  then have run: "test_parse (Str ''/usr/lib/mecab'') mecab_probe lute_world =
      (Returned r, snd (test_parse (Str ''/usr/lib/mecab'') mecab_probe lute_world))"
    by (metis prod.collapse)
  have acc: "refuses lute_world (SetValue ''mecab_path'' (Str ''/usr/lib/mecab'')) = None"
    by (simp add: lute_world_def)
  have probe: "mecab_probe src ((\<lambda>k. get_value k lute_world)(''mecab_path'' := Str ''/usr/lib/mecab''))
      = Inr [\<lparr>token = ''a''\<rparr>, \<lparr>token = pilcrow\<rparr>, \<lparr>token = ''b''\<rparr>]"
    by (simp add: mecab_probe_def)
  note th = test_parse_reported_tokens [OF run acc probe]
  have toks: "filter (\<lambda>x. x \<noteq> pilcrow) (map token [\<lparr>token = ''a''\<rparr>, \<lparr>token = pilcrow\<rparr>, \<lparr>token = ''b''\<rparr>])
      = [''a'', ''b'']"
    by (simp add: pilcrow_def)
  from th toks have rep: "reported [\<lparr>token = ''a''\<rparr>, \<lparr>token = pilcrow\<rparr>, \<lparr>token = ''b''\<rparr>] = [''a'', ''b'']"
    by simp
  from th rep have "message r = src @ '' parsed to [a, b]''"
    by simp
  with r rep show ?thesis by simp
qed

subsection \<open>set_key_value\<close>

text \<open>The two branches of the route, run to their end.\<close>

lemma set_key_value_accepted:
  assumes "refuses s (SetValue key (Str val)) = None"
  shows "set_key_value key val s =
     (case refuses s Commit of
        Some e \<Rightarrow>
          (Raised e,
           s\<lparr>calls := calls s @ [SetValue key (Str val), Commit],
             stored := (stored s)(key \<mapsto> Str val)\<rparr>)
      | None \<Rightarrow>
          (Returned \<lparr>result = ''success'', message = ''OK''\<rparr>,
           s\<lparr>calls := calls s @ [SetValue key (Str val), Commit],
             stored := (stored s)(key \<mapsto> Str val),
             durable := (stored s)(key \<mapsto> Str val)\<rparr>))"
  using assms
  by (simp add: set_key_value_def set_value_def commit_def Let_def split: option.splits)

lemma set_key_value_restored:
  assumes "refuses s (SetValue key (Str val)) = Some e"
    and "refuses s (SetValue key (get_value key s)) = None"
  shows "set_key_value key val s =
     (case refuses s Commit of
        Some e' \<Rightarrow>
          (Raised e',
           s\<lparr>calls := calls s @
                [SetValue key (Str val), SetValue key (get_value key s), Commit],
             stored := (stored s)(key \<mapsto> get_value key s)\<rparr>)
      | None \<Rightarrow>
          (Returned \<lparr>result = ''failure'', message = failure_message e\<rparr>,
           s\<lparr>calls := calls s @
                [SetValue key (Str val), SetValue key (get_value key s), Commit],
             stored := (stored s)(key \<mapsto> get_value key s),
             durable := (stored s)(key \<mapsto> get_value key s)\<rparr>))"
  using assms
  by (simp add: set_key_value_def set_value_def commit_def Let_def split: option.splits)

lemma set_key_value_restore_refused:
  assumes "refuses s (SetValue key (Str val)) = Some e"
    and "refuses s (SetValue key (get_value key s)) = Some e'"
  shows "fst (set_key_value key val s) = Raised e'"
    and "calls (snd (set_key_value key val s)) =
      calls s @ [SetValue key (Str val), SetValue key (get_value key s)]"
  using assms
  by (simp_all add: set_key_value_def set_value_def Let_def)

text \<open>
  C2. For every key: if the write step of \<open>set_key_value\<close> fails, whether or not it had
  changed the row, and the handler's write of the old value goes through, then the old
  value has been written back: the key shows its pre-attempt value afterwards. The route
  goes on to the commit, and when that goes through it returns the failure result, whose
  message is the error's type name, a colon and its description, and the old value is
  the durable one.
\<close>
theorem set_key_value_write_refused:
  assumes "refuses s (SetValue key (Str val)) = Some e"
    and "refuses s (SetValue key (get_value key s)) = None"
  shows "get_value key (snd (set_key_value key val s)) = get_value key s \<and>
     stored (snd (set_key_value key val s)) key = Some (get_value key s) \<and>
     calls (snd (set_key_value key val s)) =
       calls s @ [SetValue key (Str val), SetValue key (get_value key s), Commit] \<and>
     (refuses s Commit = None \<longrightarrow>
        fst (set_key_value key val s) =
          Returned \<lparr>result = ''failure'', message = type_name e @ '': '' @ str e\<rparr> \<and>
        durable (snd (set_key_value key val s)) key = Some (get_value key s))"
  by (simp add: set_key_value_restored [OF assms] get_value_def failure_message_def
        split: option.splits)

text \<open>
  The instance: the write of 7 raises and leaves 7 in the row; the route writes 5 back
  and returns the failure result.
\<close>

theorem set_key_value_write_refused_witness:
  "get_value ''backup_count'' (snd (set_value ''backup_count'' (Str ''7'') faulty_world)) =
     Str ''7'' \<and>
   fst (set_key_value ''backup_count'' ''7'' faulty_world) =
     Returned \<lparr>result = ''failure'', message = ''OperationalError: database is locked''\<rparr> \<and>
   get_value ''backup_count'' (snd (set_key_value ''backup_count'' ''7'' faulty_world)) =
     Str ''5''"
proof -
  have new: "refuses faulty_world (SetValue ''backup_count'' (Str ''7'')) =
      Some (Exception ''OperationalError'' ''database is locked'')"
    by (simp add: faulty_world_def)
  have old: "get_value ''backup_count'' faulty_world = Str ''5''"
    by (simp add: faulty_world_def get_value_def)
  have wb: "refuses faulty_world
      (SetValue ''backup_count'' (get_value ''backup_count'' faulty_world)) = None"
    by (simp add: old) (simp add: faulty_world_def)
  have flush: "refuses faulty_world Commit = None"
    by (simp add: faulty_world_def)
  have row: "get_value ''backup_count''
      (snd (set_value ''backup_count'' (Str ''7'') faulty_world)) = Str ''7''"
    by (simp add: set_value_def get_value_def faulty_world_def Let_def)
  from set_key_value_write_refused [OF new wb] flush old
  have "fst (set_key_value ''backup_count'' ''7'' faulty_world) =
       Returned \<lparr>result = ''failure'', message = ''OperationalError: database is locked''\<rparr> \<and>
     get_value ''backup_count'' (snd (set_key_value ''backup_count'' ''7'' faulty_world)) =
       Str ''5''"
    by simp
  with row show ?thesis by (rule conjI)
qed

text \<open>
  C3. For every key and value: when the store accepts the write, the key shows the value
  after \<open>set_key_value\<close> (the value is a str, as it comes from the URL).
\<close>
theorem set_key_value_then_get:
  assumes "refuses s (SetValue key (Str val)) = None"
  shows "get_value key (snd (set_key_value key val s)) = Str val"
  by (simp add: set_key_value_accepted [OF assms] get_value_def split: option.splits)

text \<open>The instance: \<open>current_theme\<close>, unset before, shows \<open>dark\<close> after.\<close>

theorem set_key_value_then_get_witness:
  "get_value ''current_theme'' (snd (set_key_value ''current_theme'' ''dark'' lute_world)) =
     Str ''dark'' \<and>
   get_value ''current_theme'' lute_world = NoneV"
proof -
  have "refuses lute_world (SetValue ''current_theme'' (Str ''dark'')) = None"
    by (simp add: lute_world_def)
  from set_key_value_then_get [OF this] show ?thesis
    by (simp add: get_value_def lute_world_def)
qed



subsection \<open>set_parser\<close>

text \<open>Past the guard: with an instance in the registry, and with none.\<close>

lemma set_parser_existing:
  assumes "Str unidic_type \<noteq> get_value ''unidic_types'' s"
    and "parser_instances s ''japanese'' = Some i"
  shows "set_parser unidic_type s =
     (case refuses s (SwitchTagger i unidic_type) of
        Some e \<Rightarrow> (Raised e, s\<lparr>calls := calls s @ [SwitchTagger i unidic_type]\<rparr>)
      | None \<Rightarrow>
          (Returned unidic_type,
           s\<lparr>calls := calls s @ [SwitchTagger i unidic_type],
             objects := (objects s)[i := (objects s ! i)\<lparr>tagger_variant := Str unidic_type\<rparr>]\<rparr>))"
  using assms
  by (simp add: set_parser_def switch_tagger_def Let_def split: option.splits)

lemma set_parser_absent:
  assumes "Str unidic_type \<noteq> get_value ''unidic_types'' s"
    and "parser_instances s ''japanese'' = None"
  shows "set_parser unidic_type s =
     (case refuses s (Construct ''japanese'') of
        Some e \<Rightarrow> (Raised e, s\<lparr>calls := calls s @ [Construct ''japanese'']\<rparr>)
      | None \<Rightarrow>
          (case refuses s (SwitchTagger (length (objects s)) unidic_type) of
             Some e \<Rightarrow>
               (Raised e,
                s\<lparr>calls := calls s @
                     [Construct ''japanese'', SwitchTagger (length (objects s)) unidic_type],
                  objects := objects s @
                     [\<lparr>tagger_variant = get_value ''unidic_types'' s,
                       tool_path = get_value ''mecab_path'' s\<rparr>],
                  parser_instances := (parser_instances s)(''japanese'' \<mapsto> length (objects s))\<rparr>)
           | None \<Rightarrow>
               (Returned unidic_type,
                s\<lparr>calls := calls s @
                     [Construct ''japanese'', SwitchTagger (length (objects s)) unidic_type],
                  objects := objects s @
                     [\<lparr>tagger_variant = Str unidic_type,
                       tool_path = get_value ''mecab_path'' s\<rparr>],
                  parser_instances := (parser_instances s)(''japanese'' \<mapsto> length (objects s))\<rparr>)))"
  using assms
  by (simp add: set_parser_def get_parser_def switch_tagger_def Let_def split: option.splits)

text \<open>
  C5, as stated, fails: the route does not look at the variant the instance is at. After
  one call with \<open>writing\<close> the instance is at \<open>writing\<close>, the setting still says
  \<open>spoken\<close>, and a second call with \<open>writing\<close> calls \<open>switch_tagger\<close> again.
\<close>
theorem set_parser_switches_again:
  "tagger_variant (objects (snd (set_parser ''writing'' spoken_world)) ! 0) = Str ''writing'' \<and>
   parser_instances (snd (set_parser ''writing'' spoken_world)) ''japanese'' = Some 0 \<and>
   calls (snd (set_parser ''writing'' (snd (set_parser ''writing'' spoken_world)))) =
     calls (snd (set_parser ''writing'' spoken_world)) @ [SwitchTagger 0 ''writing'']"
  by (simp add: set_parser_def switch_tagger_def get_value_def spoken_world_def lute_world_def
        Let_def)

text \<open>
  C5, amended. When the requested variant equals the stored value of the setting
  \<open>unidic_types\<close>, the route is a no-op: it returns the requested variant and the state
  is the one before, so nothing was constructed, switched or written.
\<close>
theorem set_parser_same_as_setting:
  assumes "get_value ''unidic_types'' s = Str unidic_type"
  shows "set_parser unidic_type s = (Returned unidic_type, s)"
  using assms by (simp add: set_parser_def)

text \<open>The instance: \<open>spoken\<close> is the stored setting; once and again.\<close>

theorem set_parser_same_as_setting_witness:
  "set_parser ''spoken'' spoken_world = (Returned ''spoken'', spoken_world) \<and>
   set_parser ''spoken'' (snd (set_parser ''spoken'' spoken_world)) =
     (Returned ''spoken'', spoken_world)"
proof -
  have "get_value ''unidic_types'' spoken_world = Str ''spoken''"
    by (simp add: get_value_def spoken_world_def lute_world_def)
  from set_parser_same_as_setting [OF this] show ?thesis by simp
qed

text \<open>
  C6, as stated, fails: with no instance in the registry and the requested variant equal
  to the stored setting, the route returns on line 167; nothing is constructed.
\<close>
theorem set_parser_no_construction:
  "parser_instances lute_world ''japanese'' = None \<and>
   set_parser ''spoken'' lute_world = (Returned ''spoken'', lute_world)"
  by (simp add: set_parser_def get_value_def lute_world_def)

text \<open>
  C6, amended. The route never replaces an instance the registry holds for \<open>japanese\<close>.
  When the requested variant differs from the stored setting \<open>unidic_types\<close>: if the
  registry holds no instance, the route has the instance constructed first and then
  calls \<open>switch_tagger\<close> on the new instance, which the registry now holds; if it holds
  one, the route calls \<open>switch_tagger\<close> on that instance and constructs nothing, and when
  the switch succeeds the instance is at the requested variant, its other state and the
  other instances as before.
\<close>
theorem set_parser_in_place:
  "(\<forall>i. parser_instances s ''japanese'' = Some i \<longrightarrow>
        parser_instances (snd (set_parser unidic_type s)) ''japanese'' = Some i) \<and>
   (Str unidic_type \<noteq> get_value ''unidic_types'' s \<longrightarrow>
      (parser_instances s ''japanese'' = None \<and> refuses s (Construct ''japanese'') = None \<longrightarrow>
         calls (snd (set_parser unidic_type s)) =
           calls s @ [Construct ''japanese'', SwitchTagger (length (objects s)) unidic_type] \<and>
         parser_instances (snd (set_parser unidic_type s)) ''japanese'' =
           Some (length (objects s)) \<and>
         length (objects (snd (set_parser unidic_type s))) = length (objects s) + 1) \<and>
      (\<forall>i. parser_instances s ''japanese'' = Some i \<longrightarrow>
         calls (snd (set_parser unidic_type s)) = calls s @ [SwitchTagger i unidic_type] \<and>
         length (objects (snd (set_parser unidic_type s))) = length (objects s) \<and>
         (i < length (objects s) \<and> refuses s (SwitchTagger i unidic_type) = None \<longrightarrow>
            fst (set_parser unidic_type s) = Returned unidic_type \<and>
            objects (snd (set_parser unidic_type s)) ! i =
              (objects s ! i)\<lparr>tagger_variant := Str unidic_type\<rparr> \<and>
            (\<forall>j. j \<noteq> i \<longrightarrow> objects (snd (set_parser unidic_type s)) ! j = objects s ! j))))"
proof (cases "Str unidic_type = get_value ''unidic_types'' s")
  case True
  then show ?thesis by (simp add: set_parser_def)
next
  case guard: False
  show ?thesis
  proof (cases "parser_instances s ''japanese''")
    case None
    with guard show ?thesis
      by (simp add: set_parser_absent split: option.splits)
  next
    case (Some i)
    with guard show ?thesis
      by (simp add: set_parser_existing split: option.splits)
  qed
qed

text \<open>The instances: a run that constructs, and a run on an instance at \<open>spoken\<close>.\<close>

theorem set_parser_in_place_witness:
  "calls (snd (set_parser ''writing'' lute_world)) =
     [Construct ''japanese'', SwitchTagger 0 ''writing''] \<and>
   parser_instances (snd (set_parser ''writing'' lute_world)) ''japanese'' = Some 0 \<and>
   calls (snd (set_parser ''writing'' spoken_world)) = [SwitchTagger 0 ''writing''] \<and>
   parser_instances (snd (set_parser ''writing'' spoken_world)) ''japanese'' = Some 0 \<and>
   objects (snd (set_parser ''writing'' spoken_world)) ! 0 =
     \<lparr>tagger_variant = Str ''writing'', tool_path = Str ''/usr/lib/mecab''\<rparr>"
proof -
  have g0: "Str ''writing'' \<noteq> get_value ''unidic_types'' lute_world"
    by (simp add: get_value_def lute_world_def)
  have a0: "parser_instances lute_world ''japanese'' = None \<and>
      refuses lute_world (Construct ''japanese'') = None \<and> calls lute_world = [] \<and>
      objects lute_world = []"
    by (simp add: lute_world_def)
  from set_parser_in_place [of lute_world "''writing''"] g0 a0
  have 0: "calls (snd (set_parser ''writing'' lute_world)) =
       [Construct ''japanese'', SwitchTagger 0 ''writing''] \<and>
     parser_instances (snd (set_parser ''writing'' lute_world)) ''japanese'' = Some 0"
    by simp
  have g1: "Str ''writing'' \<noteq> get_value ''unidic_types'' spoken_world"
    by (simp add: get_value_def spoken_world_def lute_world_def)
  have i1: "parser_instances spoken_world ''japanese'' = Some 0"
    by (simp add: spoken_world_def)
  have a1: "0 < length (objects spoken_world) \<and>
      refuses spoken_world (SwitchTagger 0 ''writing'') = None \<and> calls spoken_world = [] \<and>
      objects spoken_world ! 0 = \<lparr>tagger_variant = Str ''spoken'', tool_path = Str ''/usr/lib/mecab''\<rparr>"
    by (simp add: spoken_world_def lute_world_def)
  from set_parser_in_place [of spoken_world "''writing''"] g1 i1 a1
  have 1: "calls (snd (set_parser ''writing'' spoken_world)) = [SwitchTagger 0 ''writing''] \<and>
     parser_instances (snd (set_parser ''writing'' spoken_world)) ''japanese'' = Some 0 \<and>
     objects (snd (set_parser ''writing'' spoken_world)) ! 0 =
       \<lparr>tagger_variant = Str ''writing'', tool_path = Str ''/usr/lib/mecab''\<rparr>"
    by simp
  from 0 1 show ?thesis by simp
qed


subsection \<open>edit_settings\<close>

lemma set_fields_accepted:
  assumes "\<forall>f \<in> set (written form). refuses s (SetValue (field_id f) (field_data f)) = None"
  shows "set_fields form s =
     (Returned (),
      s\<lparr>calls := calls s @ map (\<lambda>f. SetValue (field_id f) (field_data f)) (written form),
        stored := fold put (written form) (stored s)\<rparr>)"
  using assms
proof (induction form arbitrary: s)
  case Nil
  then show ?case by (simp add: written_def)
next
  case (Cons f form)
  show ?case
  proof (cases "field_id f \<notin> {''csrf_token'', ''submit''}")
    case True
    let ?s' = "s\<lparr>calls := calls s @ [SetValue (field_id f) (field_data f)],
                 stored := (stored s)(field_id f \<mapsto> field_data f)\<rparr>"
    from True Cons.prems have acc: "refuses s (SetValue (field_id f) (field_data f)) = None"
      by (simp add: written_def)
    from Cons.prems
    have "\<forall>g \<in> set (written form). refuses ?s' (SetValue (field_id g) (field_data g)) = None"
      by (simp add: written_def)
    from Cons.IH [OF this] True acc show ?thesis
      by (simp add: set_value_accepted written_def put_def)
  next
    case False
    from Cons.prems
    have "\<forall>g \<in> set (written form). refuses s (SetValue (field_id g) (field_data g)) = None"
      by (simp add: written_def)
    from Cons.IH [OF this] False show ?thesis
      by (auto simp: written_def)
  qed
qed

lemma fold_upd_notin:
  "k \<notin> field_id ` set fs \<Longrightarrow>
   fold put fs m k = m k"
  by (induction fs arbitrary: m) (auto simp: put_def)

lemma fold_upd_distinct:
  "distinct (map field_id fs) \<Longrightarrow> f \<in> set fs \<Longrightarrow>
   fold put fs m (field_id f) = Some (field_data f)"
proof (induction fs arbitrary: m)
  case Nil
  then show ?case by simp
next
  case (Cons g gs)
  show ?case
  proof (cases "f = g")
    case True
    from Cons.prems have "field_id g \<notin> field_id ` set gs" by simp
    then have "fold put gs (put g m) (field_id g) = put g m (field_id g)"
      by (rule fold_upd_notin)
    moreover have "put g m (field_id g) = Some (field_data g)"
      by (simp add: put_def)
    ultimately show ?thesis using True by simp
  next
    case False
    with Cons.prems Cons.IH show ?thesis by simp
  qed
qed

text \<open>
  C8. On a valid submission, when the store accepts the writes: the route calls
  \<open>set_value\<close> for every field except \<open>csrf_token\<close> and \<open>submit\<close>, in form order, with
  the field's id and data, and then calls the commit once, after all the writes. The
  stored rows are the old ones with these written over them; with distinct field ids
  every field's key shows the field's data. When the commit succeeds the route
  redirects to \<open>/\<close> and the durable rows are the stored ones.
\<close>
theorem edit_settings_writes_then_commits:
  assumes "\<forall>f \<in> set (written form). refuses s (SetValue (field_id f) (field_data f)) = None"
  shows "calls (snd (edit_settings py_int form True s)) =
       calls s @ map (\<lambda>f. SetValue (field_id f) (field_data f)) (written form) @ [Commit] \<and>
     stored (snd (edit_settings py_int form True s)) =
       fold put (written form) (stored s) \<and>
     (distinct (map field_id (written form)) \<longrightarrow>
        (\<forall>f \<in> set (written form).
           get_value (field_id f) (snd (edit_settings py_int form True s)) = field_data f)) \<and>
     (refuses s Commit = None \<longrightarrow>
        fst (edit_settings py_int form True s) =
          Returned (Redirect ''/'' [(''Settings updated'', ''success'')]) \<and>
        durable (snd (edit_settings py_int form True s)) =
          stored (snd (edit_settings py_int form True s)))"
  by (simp add: edit_settings_def set_fields_accepted [OF assms] commit_def Let_def
        get_value_def fold_upd_distinct split: option.splits)

text \<open>The instance: three settings are written and committed, the csrf token is not.\<close>

theorem edit_settings_writes_then_commits_witness:
  "calls (snd (edit_settings (\<lambda>t. Inr 0) settings_form True lute_world)) =
     [SetValue ''backup_enabled'' (Bool True), SetValue ''backup_dir'' (Str ''/existing/abs/dir''),
      SetValue ''backup_count'' (IntV 5), Commit] \<and>
   get_value ''backup_count'' (snd (edit_settings (\<lambda>t. Inr 0) settings_form True lute_world)) =
     IntV 5 \<and>
   durable (snd (edit_settings (\<lambda>t. Inr 0) settings_form True lute_world)) ''backup_count'' =
     Some (IntV 5)"
proof -
  have w: "written settings_form =
     [\<lparr>field_id = ''backup_enabled'', field_data = Bool True, is_boolean = True\<rparr>,
      \<lparr>field_id = ''backup_dir'', field_data = Str ''/existing/abs/dir'', is_boolean = False\<rparr>,
      \<lparr>field_id = ''backup_count'', field_data = IntV 5, is_boolean = False\<rparr>]"
    by (simp add: written_def settings_form_def)
  have acc: "\<forall>f \<in> set (written settings_form).
      refuses lute_world (SetValue (field_id f) (field_data f)) = None"
    by (simp add: lute_world_def)
  have c: "refuses lute_world Commit = None \<and> calls lute_world = []"
    by (simp add: lute_world_def)
  note th = edit_settings_writes_then_commits [OF acc, of "\<lambda>t. Inr 0"]
  from th c have 1: "calls (snd (edit_settings (\<lambda>t. Inr 0) settings_form True lute_world)) =
     [SetValue ''backup_enabled'' (Bool True), SetValue ''backup_dir'' (Str ''/existing/abs/dir''),
      SetValue ''backup_count'' (IntV 5), Commit]"
    by (simp add: w)
  from th have 2: "get_value ''backup_count''
      (snd (edit_settings (\<lambda>t. Inr 0) settings_form True lute_world)) = IntV 5"
    by (simp add: w)
  from th c have 3: "durable (snd (edit_settings (\<lambda>t. Inr 0) settings_form True lute_world))
      ''backup_count'' = Some (IntV 5)"
    by (simp add: w put_def)
  from 1 2 3 show ?thesis by simp
qed

subsection \<open>validate_backup_dir\<close>

text \<open>
  \<open>abspath\<close> answers an absolute path when the current directory is one, so a relative
  path is never its own \<open>abspath\<close>.
\<close>

lemma normpath_absolute: "isabs p \<Longrightarrow> isabs (normpath p)"
  by (cases p) (auto simp: normpath_def isabs_def Let_def eval_nat_numeral)

lemma path_join_absolute: "isabs a \<Longrightarrow> isabs (path_join a b)"
  by (cases a) (auto simp: path_join_def isabs_def)

lemma abspath_absolute: "isabs (cwd fs) \<Longrightarrow> isabs (abspath fs v)"
  by (simp add: abspath_def normpath_absolute path_join_absolute)

lemma relative_not_abspath:
  assumes "\<not> isabs v" and "isabs (cwd fs)"
  shows "v \<noteq> abspath fs v"
  using assms abspath_absolute [of fs v] by auto

text \<open>The validator on a directory that is not blank, and on a blank one.\<close>

lemma validate_nonblank:
  assumes "strip v \<noteq> ''''"
  shows "validate_backup_dir fs True (Some v) =
     (if v \<noteq> abspath fs v then
        Inl (Exception ''ValidationError''
               (''Backup dir must be absolute path.  Did you mean '' @ quoted (abspath fs v) @ ''?''))
      else if \<not> exists fs v then
        Inl (Exception ''ValidationError'' (''Directory '' @ quoted v @ '' does not exist.''))
      else if \<not> isdir fs v then
        Inl (Exception ''ValidationError'' (quoted v @ '' is not a directory.''))
      else Inr ())"
  using assms by (simp add: validate_backup_dir_def Let_def)

lemma validate_blank:
  assumes "strip (case data of None \<Rightarrow> '''' | Some t \<Rightarrow> t) = ''''"
  shows "validate_backup_dir fs True data =
     Inl (Exception ''ValidationError'' ''Backup directory required'')"
  using assms by (simp add: validate_backup_dir_def)

lemma strip_empty: "strip '''' = ''''"
  by (simp add: strip_def lstrip_def rstrip_def)

text \<open>
  C7. With \<open>backup_enabled\<close> false the validator accepts whatever the directory is, the
  empty string too. With \<open>backup_enabled\<close> true it rejects the empty string, \<open>None\<close> and
  every directory that \<open>strip\<close> leaves empty, with "Backup directory required"; it rejects
  a relative path (not blank, the current directory being absolute) with the message
  that suggests its \<open>abspath\<close>, which is absolute; it rejects every path that does not
  exist, and every path that exists and is not a directory, with the messages of lines
  77 and 79 when the path is its own \<open>abspath\<close>.
\<close>
theorem validate_backup_dir_cases:
  "(\<forall>data. validate_backup_dir fs False data = Inr ()) \<and>
   validate_backup_dir fs True (Some '''') =
     Inl (Exception ''ValidationError'' ''Backup directory required'') \<and>
   validate_backup_dir fs True None =
     Inl (Exception ''ValidationError'' ''Backup directory required'') \<and>
   (strip v = '''' \<longrightarrow>
      validate_backup_dir fs True (Some v) =
        Inl (Exception ''ValidationError'' ''Backup directory required'')) \<and>
   (strip v \<noteq> '''' \<and> \<not> isabs v \<and> isabs (cwd fs) \<longrightarrow>
      validate_backup_dir fs True (Some v) =
        Inl (Exception ''ValidationError''
               (''Backup dir must be absolute path.  Did you mean '' @
                quoted (abspath fs v) @ ''?'')) \<and>
      isabs (abspath fs v)) \<and>
   (\<not> exists fs v \<longrightarrow>
      isl (validate_backup_dir fs True (Some v)) \<and>
      (strip v \<noteq> '''' \<and> v = abspath fs v \<longrightarrow>
         validate_backup_dir fs True (Some v) =
           Inl (Exception ''ValidationError''
                  (''Directory '' @ quoted v @ '' does not exist.'')))) \<and>
   (exists fs v \<and> \<not> isdir fs v \<longrightarrow>
      isl (validate_backup_dir fs True (Some v)) \<and>
      (strip v \<noteq> '''' \<and> v = abspath fs v \<longrightarrow>
         validate_backup_dir fs True (Some v) =
           Inl (Exception ''ValidationError'' (quoted v @ '' is not a directory.''))))"
proof (cases "strip v = ''''")
  case True
  then show ?thesis
    by (simp add: validate_blank strip_empty) (simp add: validate_backup_dir_def)
next
  case False
  then show ?thesis
    using relative_not_abspath [of v fs] abspath_absolute [of fs v]
    by (simp add: validate_nonblank validate_blank strip_empty)
      (simp add: validate_backup_dir_def)
qed

text \<open>The instances, on the file system above.\<close>

lemma strip_samples:
  "strip ''backups'' \<noteq> '''' \<and> strip ''/missing'' \<noteq> '''' \<and>
   strip ''/home/lute/notes.txt'' \<noteq> ''''"
  by (simp add: strip_def lstrip_def rstrip_def whitespace_def)

lemma abspath_samples:
  "abspath home_fs ''backups'' = ''/home/lute/backups'' \<and>
   abspath home_fs ''/missing'' = ''/missing'' \<and>
   abspath home_fs ''/home/lute/notes.txt'' = ''/home/lute/notes.txt''"
  by (simp add: abspath_def normpath_def isabs_def path_join_def home_fs_def Let_def)

theorem validate_backup_dir_cases_witness:
  "validate_backup_dir home_fs False (Some '''') = Inr () \<and>
   validate_backup_dir home_fs True (Some '''') =
     Inl (Exception ''ValidationError'' ''Backup directory required'') \<and>
   validate_backup_dir home_fs True (Some ''backups'') =
     Inl (Exception ''ValidationError''
            (''Backup dir must be absolute path.  Did you mean '' @
             quoted ''/home/lute/backups'' @ ''?'')) \<and>
   validate_backup_dir home_fs True (Some ''/missing'') =
     Inl (Exception ''ValidationError'' (''Directory '' @ quoted ''/missing'' @ '' does not exist.'')) \<and>
   validate_backup_dir home_fs True (Some ''/home/lute/notes.txt'') =
     Inl (Exception ''ValidationError'' (quoted ''/home/lute/notes.txt'' @ '' is not a directory.''))"
proof -
  have fs: "isabs (cwd home_fs) \<and> \<not> isabs ''backups'' \<and> \<not> exists home_fs ''/missing'' \<and>
      exists home_fs ''/home/lute/notes.txt'' \<and> \<not> isdir home_fs ''/home/lute/notes.txt''"
    by (simp add: home_fs_def isabs_def)
  from validate_backup_dir_cases [of home_fs "''backups''"] fs strip_samples abspath_samples
  have 1: "validate_backup_dir home_fs False (Some '''') = Inr () \<and>
     validate_backup_dir home_fs True (Some '''') =
       Inl (Exception ''ValidationError'' ''Backup directory required'') \<and>
     validate_backup_dir home_fs True (Some ''backups'') =
       Inl (Exception ''ValidationError''
              (''Backup dir must be absolute path.  Did you mean '' @
               quoted ''/home/lute/backups'' @ ''?''))"
    by simp
  from validate_backup_dir_cases [of home_fs "''/missing''"] fs strip_samples abspath_samples
  have 2: "validate_backup_dir home_fs True (Some ''/missing'') =
     Inl (Exception ''ValidationError'' (''Directory '' @ quoted ''/missing'' @ '' does not exist.''))"
    by simp
  from validate_backup_dir_cases [of home_fs "''/home/lute/notes.txt''"] fs strip_samples
    abspath_samples
  have 3: "validate_backup_dir home_fs True (Some ''/home/lute/notes.txt'') =
     Inl (Exception ''ValidationError'' (quoted ''/home/lute/notes.txt'' @ '' is not a directory.''))"
    by simp
  from 1 2 3 show ?thesis by simp
qed

end
